(* ===== verification/Prelude.thy ===== *)
theory Prelude
  imports Main "HOL-Library.Sublist"
begin

text \<open>
  Shared vocabulary of the development. JavaScript strings are modelled as HOL strings:
  a JS string is a sequence of UTF-16 code units, and every code unit that occurs in
  the configuration file is below 256, so each is one HOL \<open>char\<close> and \<open>length\<close>
  counts what JS's \<open>.length\<close> counts. Fallible reads return \<open>'e + 'a\<close> with the error
  on the left; \<open>bind_sum\<close> sequences them the way an early return does. The
  collection \<open>decode_simps\<close> gathers the equations that evaluate the configuration
  readers, so that proofs about them are \<open>simp add: decode_simps\<close>.
\<close>

named_theorems decode_simps "equations that evaluate the configuration readers"

type_synonym js_string = string

definition bind_sum :: "'e + 'a \<Rightarrow> ('a \<Rightarrow> 'e + 'b) \<Rightarrow> 'e + 'b" where
  "bind_sum m f = (case m of Inl e \<Rightarrow> Inl e | Inr x \<Rightarrow> f x)"

lemma bind_sum_Inl [simp]: "bind_sum (Inl e) f = Inl e"
  by (simp add: bind_sum_def)

lemma bind_sum_Inr [simp]: "bind_sum (Inr x) f = f x"
  by (simp add: bind_sum_def)

lemma ex_bind_sum_Inr [simp]:
  "(\<exists>y. bind_sum m f = Inr y) \<longleftrightarrow> (\<exists>x. m = Inr x \<and> (\<exists>y. f x = Inr y))"
  by (cases m) auto

text \<open>Without duplicate keys, looking up the last binding is looking up the first.\<close>

lemma map_of_rev_distinct:
  assumes d: "distinct (map fst xs)"
  shows "map_of (rev xs) = map_of xs"
proof (rule ext)
  fix k
  show "map_of (rev xs) k = map_of xs k"
  proof (cases "map_of (rev xs) k")
    case None
    then show ?thesis by (metis map_of_eq_None_iff set_rev)
  next
    case (Some v)
    then have "(k, v) \<in> set xs" by (auto dest: map_of_SomeD)
    with d Some show ?thesis by (simp add: map_of_is_SomeI)
  qed
qed

end
