(* ===== verification/JsValue.thy ===== *)
theory JsValue
  imports Prelude
begin

text \<open>
  The values a VitePress configuration file builds, and the structural types they are
  checked against. A configuration is a JavaScript object literal whose leaves are
  string literals: \<open>jsval\<close> has a constructor for each kind of value that occurs
  (strings, booleans, arrays, objects). An object literal is kept as the list of its
  properties in source order, because JavaScript allows a key to be written twice and
  then the \<^emph>\<open>last\<close> definition is the one a property read sees (\<open>js_get\<close>).
  \<open>js_path\<close> follows a chain of property reads and index reads such as
  \<open>config.themeConfig.nav[2].items[0]\<close>, giving \<open>None\<close> where JavaScript gives
  \<open>undefined\<close> (a missing key, an index out of range, a read into a string).
  \<open>jsty\<close> is the fragment of TypeScript's type language the configuration's declared
  type uses (\<open>string\<close>, unions of string literals, arrays, object types with required
  properties, unions), and \<open>conforms v t\<close> is structural assignability of the value to
  the type: extra properties are allowed, every listed property must be present and
  conform.
\<close>

datatype jsval =
    JStr js_string
  | JBool bool
  | JArr "jsval list"
  | JObj "(js_string \<times> jsval) list"

datatype path_elem = Key js_string | Idx nat

type_synonym js_path = "path_elem list"

definition js_get :: "(js_string \<times> jsval) list \<Rightarrow> js_string \<Rightarrow> jsval option" where
  "js_get kvs k = map_of (rev kvs) k"

fun js_path :: "jsval \<Rightarrow> js_path \<Rightarrow> jsval option" where
  "js_path v [] = Some v"
| "js_path (JObj kvs) (Key k # p) = (case js_get kvs k of None \<Rightarrow> None | Some w \<Rightarrow> js_path w p)"
| "js_path (JArr vs) (Idx i # p) = (if i < length vs then js_path (vs ! i) p else None)"
| "js_path _ _ = None"

datatype jsty =
    TString
  | TEnum "js_string list"
  | TArray jsty
  | TObject "(js_string \<times> jsty) list"
  | TUnion jsty jsty

fun conforms :: "jsval \<Rightarrow> jsty \<Rightarrow> bool" where
  "conforms v TString = (case v of JStr _ \<Rightarrow> True | _ \<Rightarrow> False)"
| "conforms v (TEnum ns) = (case v of JStr s \<Rightarrow> s \<in> set ns | _ \<Rightarrow> False)"
| "conforms v (TArray t) = (case v of JArr vs \<Rightarrow> list_all (\<lambda>w. conforms w t) vs | _ \<Rightarrow> False)"
| "conforms v (TObject fs) =
     (case v of
        JObj kvs \<Rightarrow> list_all (\<lambda>(k, t). case js_get kvs k of None \<Rightarrow> False | Some w \<Rightarrow> conforms w t) fs
      | _ \<Rightarrow> False)"
| "conforms v (TUnion a b) = (conforms v a \<or> conforms v b)"

text \<open>
  No object anywhere in the value writes a key twice, so no property of the literal is
  silently replaced by a later one.
\<close>

fun keys_distinct :: "jsval \<Rightarrow> bool" where
  "keys_distinct (JObj kvs) = (distinct (map fst kvs) \<and> list_all (\<lambda>kv. keys_distinct (snd kv)) kvs)"
| "keys_distinct (JArr vs) = list_all keys_distinct vs"
| "keys_distinct (JStr s) = True"
| "keys_distinct (JBool b) = True"

subsection \<open>Property reads\<close>

declare js_get_def [decode_simps]

lemma js_get_Nil [simp]: "js_get [] k = None"
  by (simp add: js_get_def)

lemma js_get_snoc [simp]:
  "js_get (kvs @ [(k', v)]) k = (if k = k' then Some v else js_get kvs k)"
  by (simp add: js_get_def)

lemma js_get_Cons:
  "js_get ((k', v) # kvs) k = (case js_get kvs k of None \<Rightarrow> (if k = k' then Some v else None) | Some w \<Rightarrow> Some w)"
  by (simp add: js_get_def map_add_def split: option.splits)

lemma js_get_distinct: "distinct (map fst kvs) \<Longrightarrow> js_get kvs k = map_of kvs k"
  by (simp add: js_get_def map_of_rev_distinct)

text \<open>Where the keys are distinct, the first and the last binding of a key coincide.\<close>

lemma keys_distinct_js_get:
  "keys_distinct (JObj kvs) \<Longrightarrow> js_get kvs k = map_of kvs k"
  by (simp add: js_get_distinct)

subsection \<open>Paths\<close>

lemma js_path_Key [simp]:
  "js_path v (Key k # p) = (case v of JObj kvs \<Rightarrow> (case js_get kvs k of None \<Rightarrow> None | Some w \<Rightarrow> js_path w p) | _ \<Rightarrow> None)"
  by (cases v) auto

lemma js_path_Idx [simp]:
  "js_path v (Idx i # p) = (case v of JArr vs \<Rightarrow> (if i < length vs then js_path (vs ! i) p else None) | _ \<Rightarrow> None)"
  by (cases v) auto

declare js_path.simps(2-) [simp del]

lemma js_path_append:
  "js_path v (p @ q) = (case js_path v p of None \<Rightarrow> None | Some w \<Rightarrow> js_path w q)"
proof (induction p arbitrary: v)
  case Nil
  then show ?case by simp
next
  case (Cons e p)
  then show ?case
    by (cases e; cases v) (auto split: option.splits)
qed

lemma js_path_snoc_Key:
  "js_path v p = Some (JObj kvs) \<Longrightarrow> js_path v (p @ [Key k]) = js_get kvs k"
  by (simp add: js_path_append split: option.splits)

lemma js_path_snoc_Idx:
  "js_path v p = Some (JArr vs) \<Longrightarrow> i < length vs \<Longrightarrow> js_path v (p @ [Idx i]) = Some (vs ! i)"
  by (simp add: js_path_append)

subsection \<open>Conformance\<close>

end
