(* ===== verification/SiteConfig.thy ===== *)
theory SiteConfig
  imports Prelude
begin

text \<open>
  The typed configuration VitePress receives: the SiteConfiguration entity of the
  specification (section 3), with the shape of VitePress's \<open>UserConfig\<close> and
  \<open>DefaultTheme.Config\<close> restricted to the properties \<open>src/.vitepress/config.mts\<close>
  sets. A navigation entry is a tagged union (\<open>nav_item\<close>): a link
  \<open>{text, link}\<close> or a dropdown \<open>{text, items}\<close> of links. A social link pairs an
  icon, one of the platform identifiers VitePress's \<open>SocialLinkIcon\<close> enumerates, with
  a URL; the icon type is an instance of the library's \<open>enum\<close> class. The
  specification's invariants are \<open>wf_site_config\<close>: every link target is
  a root-relative path or an absolute URL (so non-empty), and no dropdown is empty.
\<close>

record nav_link =
  nl_text :: js_string
  nl_link :: js_string

datatype nav_item =
    SimpleLink nav_link
  | DropdownMenu js_string "nav_link list"

datatype social_icon =
    Discord | Facebook | Github | Instagram | Linkedin | Mastodon | Npm | Slack | Twitter | X
  | Youtube

record social_link =
  sl_icon :: social_icon
  sl_link :: js_string

record site_configuration =
  title :: js_string
  description :: js_string
  nav :: "nav_item list"
  outlineLabel :: js_string
  socialLinks :: "social_link list"
  srcDir :: js_string

subsection \<open>Icon identifiers\<close>

primrec icon_name :: "social_icon \<Rightarrow> js_string" where
  "icon_name Discord = ''discord''"
| "icon_name Facebook = ''facebook''"
| "icon_name Github = ''github''"
| "icon_name Instagram = ''instagram''"
| "icon_name Linkedin = ''linkedin''"
| "icon_name Mastodon = ''mastodon''"
| "icon_name Npm = ''npm''"
| "icon_name Slack = ''slack''"
| "icon_name Twitter = ''twitter''"
| "icon_name X = ''x''"
| "icon_name Youtube = ''youtube''"

definition all_icons :: "social_icon list" where
  "all_icons = [Discord, Facebook, Github, Instagram, Linkedin, Mastodon, Npm, Slack, Twitter, X, Youtube]"

definition icon_names :: "js_string list" where
  "icon_names = map icon_name all_icons"

definition icon_of_name :: "js_string \<Rightarrow> social_icon option" where
  "icon_of_name s = find (\<lambda>i. icon_name i = s) all_icons"

lemma set_all_icons [simp]: "set all_icons = UNIV"
proof -
  have "i \<in> set all_icons" for i
    by (cases i) (simp_all add: all_icons_def)
  then show ?thesis by blast
qed

lemma icon_name_inj: "icon_name i = icon_name j \<longleftrightarrow> i = j"
  by (cases i; cases j) simp_all

text \<open>
  The icon type is finite and enumerated by \<open>all_icons\<close>: an instance of the library's
  \<open>enum\<close> class, so that statements over all icons are decided by evaluation.
\<close>

instantiation social_icon :: enum
begin

definition enum_social_icon :: "social_icon list" where
  "enum_social_icon = all_icons"

definition enum_all_social_icon :: "(social_icon \<Rightarrow> bool) \<Rightarrow> bool" where
  "enum_all_social_icon P = list_all P all_icons"

definition enum_ex_social_icon :: "(social_icon \<Rightarrow> bool) \<Rightarrow> bool" where
  "enum_ex_social_icon P = list_ex P all_icons"

instance
proof
  show "(UNIV :: social_icon set) = set enum_class.enum"
    by (simp add: enum_social_icon_def)
  show "distinct (enum_class.enum :: social_icon list)"
    by (simp add: enum_social_icon_def all_icons_def)
  fix P :: "social_icon \<Rightarrow> bool"
  show "enum_class.enum_all P = Ball UNIV P"
    by (simp add: enum_all_social_icon_def list_all_iff)
  show "enum_class.enum_ex P = Bex UNIV P"
    by (simp add: enum_ex_social_icon_def list_ex_iff)
qed

end

lemma all_icons_distinct: "distinct all_icons"
  by (simp add: all_icons_def)

lemma icon_names_distinct: "distinct icon_names"
  unfolding icon_names_def
proof (rule distinct_map [THEN iffD2], intro conjI)
  show "distinct all_icons" by (rule all_icons_distinct)
  show "inj_on icon_name (set all_icons)"
    by (rule inj_onI) (simp add: icon_name_inj)
qed

lemma icon_of_name_icon_name [simp]: "icon_of_name (icon_name i) = Some i"
  by (cases i) (simp_all add: icon_of_name_def all_icons_def)

lemma icon_of_name_SomeD: "icon_of_name s = Some i \<Longrightarrow> icon_name i = s"
  by (auto simp: icon_of_name_def find_Some_iff)

lemma icon_of_name_defined: "(\<exists>i. icon_of_name s = Some i) \<longleftrightarrow> s \<in> set icon_names"
proof
  assume "\<exists>i. icon_of_name s = Some i"
  then show "s \<in> set icon_names"
    by (auto simp: icon_names_def dest: icon_of_name_SomeD)
next
  assume "s \<in> set icon_names"
  then obtain i where "s = icon_name i" by (auto simp: icon_names_def)
  then show "\<exists>i. icon_of_name s = Some i" by simp
qed

subsection \<open>Well-formedness (specification, section 3)\<close>

text \<open>
  A link is a root-relative path (\<open>/...\<close>, but not the protocol-relative \<open>//...\<close>)
  or an absolute URL, a lower-case scheme followed by a colon.
\<close>

definition is_root_relative :: "js_string \<Rightarrow> bool" where
  "is_root_relative s \<longleftrightarrow> prefix ''/'' s \<and> \<not> prefix ''//'' s"

definition is_scheme_char :: "char \<Rightarrow> bool" where
  "is_scheme_char c \<longleftrightarrow> c \<in> set ''abcdefghijklmnopqrstuvwxyz''"

definition is_absolute_url :: "js_string \<Rightarrow> bool" where
  "is_absolute_url s \<longleftrightarrow>
     (let scheme = takeWhile is_scheme_char s
      in scheme \<noteq> [] \<and> prefix '':'' (drop (length scheme) s))"

definition link_ok :: "js_string \<Rightarrow> bool" where
  "link_ok s \<longleftrightarrow> is_root_relative s \<or> is_absolute_url s"

lemma link_ok_nonempty: "link_ok s \<Longrightarrow> s \<noteq> []"
  by (auto simp: link_ok_def is_root_relative_def is_absolute_url_def)

definition wf_nav_link :: "nav_link \<Rightarrow> bool" where
  "wf_nav_link l \<longleftrightarrow> link_ok (nl_link l)"

fun wf_nav_item :: "nav_item \<Rightarrow> bool" where
  "wf_nav_item (SimpleLink l) = wf_nav_link l"
| "wf_nav_item (DropdownMenu t items) = (items \<noteq> [] \<and> list_all wf_nav_link items)"

definition wf_social_link :: "social_link \<Rightarrow> bool" where
  "wf_social_link s \<longleftrightarrow> link_ok (sl_link s)"

definition wf_site_config :: "site_configuration \<Rightarrow> bool" where
  "wf_site_config c \<longleftrightarrow> list_all wf_nav_item (nav c) \<and> list_all wf_social_link (socialLinks c)"

subsection \<open>Social links point at their platform\<close>

text \<open>
  Each icon names a platform, and a link shown with that icon should lead to that
  platform's site: \<open>platform_host\<close> gives the host of each platform's profile pages.
  Mastodon is federated, with no single host, so any host is accepted for it.
  \<open>url_host\<close> is the host part of an absolute URL \<open>scheme://host/...\<close>: what follows
  \<open>://\<close>, up to the first \<open>/\<close>, \<open>?\<close>, \<open>#\<close> or \<open>:\<close>.
\<close>

primrec platform_host :: "social_icon \<Rightarrow> js_string option" where
  "platform_host Discord = Some ''discord.com''"
| "platform_host Facebook = Some ''facebook.com''"
| "platform_host Github = Some ''github.com''"
| "platform_host Instagram = Some ''instagram.com''"
| "platform_host Linkedin = Some ''linkedin.com''"
| "platform_host Mastodon = None"
| "platform_host Npm = Some ''npmjs.com''"
| "platform_host Slack = Some ''slack.com''"
| "platform_host Twitter = Some ''twitter.com''"
| "platform_host X = Some ''x.com''"
| "platform_host Youtube = Some ''youtube.com''"

definition url_host :: "js_string \<Rightarrow> js_string option" where
  "url_host s =
     (let scheme = takeWhile is_scheme_char s; rest = drop (length scheme) s
      in if scheme \<noteq> [] \<and> prefix ''://'' rest
         then Some (takeWhile (\<lambda>c. c \<notin> set ''/?#:'') (drop 3 rest))
         else None)"

definition on_platform :: "social_link \<Rightarrow> bool" where
  "on_platform s \<longleftrightarrow>
     (case platform_host (sl_icon s) of
        None \<Rightarrow> True
      | Some h \<Rightarrow> url_host (sl_link s) = Some h \<or> url_host (sl_link s) = Some (''www.'' @ h))"

text \<open>The check rejects a link shown under another platform's icon, and a look-alike host.\<close>

lemma on_platform_rejects:
  "\<not> on_platform \<lparr>sl_icon = Github, sl_link = ''https://youtube.com/ibrabeicker''\<rparr>"
  "\<not> on_platform \<lparr>sl_icon = Github, sl_link = ''https://github.com.evil.example/x''\<rparr>"
  "on_platform \<lparr>sl_icon = Github, sl_link = ''https://www.github.com/x''\<rparr>"
  by (simp_all add: on_platform_def url_host_def is_scheme_char_def)

text \<open>The link targets a navigation bar offers, in display order, dropdown entries inline.\<close>

fun item_targets :: "nav_item \<Rightarrow> js_string list" where
  "item_targets (SimpleLink l) = [nl_link l]"
| "item_targets (DropdownMenu t items) = map nl_link items"

definition nav_targets :: "nav_item list \<Rightarrow> js_string list" where
  "nav_targets items = concat (map item_targets items)"

lemma nav_targets_simps [simp]:
  "nav_targets [] = []"
  "nav_targets (i # is) = item_targets i @ nav_targets is"
  by (simp_all add: nav_targets_def)

lemma wf_nav_item_targets: "wf_nav_item i \<Longrightarrow> list_all link_ok (item_targets i)"
  by (cases i) (auto simp: wf_nav_link_def list_all_iff)

text \<open>In a well-formed configuration every target the navigation bar offers is a valid link.\<close>

lemma list_all_wf_nav_targets:
  "list_all wf_nav_item items \<Longrightarrow> list_all link_ok (nav_targets items)"
  by (induction items) (simp_all add: wf_nav_item_targets)

lemma wf_nav_targets: "wf_site_config c \<Longrightarrow> list_all link_ok (nav_targets (nav c))"
  by (simp add: wf_site_config_def list_all_wf_nav_targets)

end
