(* ===== verification/ConfigCodec.thy ===== *)
theory ConfigCodec
  imports JsValue SiteConfig
begin

text \<open>
  How a configuration object is read as a SiteConfiguration, how a SiteConfiguration
  is written as an object, and the TypeScript type the object must have.
  \<^item> The readers (\<open>decode_*\<close>) follow the nesting of the configuration object: the
    top-level \<open>title\<close>, \<open>description\<close>, \<open>themeConfig\<close> and \<open>srcDir\<close>, inside
    \<open>themeConfig\<close> the \<open>nav\<close> array, \<open>outline.label\<close> and the \<open>socialLinks\<close>
    array. Each reader takes the path of the value it reads, and fails with the first
    problem in source order: \<open>MissingField p\<close> when the property at \<open>p\<close> is absent,
    \<open>WrongType p t\<close> when the value at \<open>p\<close> is not of type \<open>t\<close>. A navigation entry is
    read as a link when it has the shape \<open>{text, link}\<close>, and otherwise as a dropdown
    \<open>{text, items}\<close>, the two members of the union in order; when it is neither, the
    error is \<open>WrongType p ExpNavItem\<close> at the entry, as TypeScript reports a value
    assignable to no member of a union.
  \<^item> The writers (\<open>enc_*\<close>, \<open>encode_site_config\<close>) produce an object literal with
    exactly the properties of the specification; they are the inverse the round-trip
    lemma is about, not a model of code.
  \<^item> \<open>site_config_ty\<close> is the declared type, in the \<open>jsty\<close> language.
  The lemmas show that reading what was written gives the value back, that reading
  succeeds exactly on the values that conform to the declared type, and that the declared
  type does not enforce the specification's invariants.
\<close>

datatype expected = ExpString | ExpArray | ExpObject | ExpIcon | ExpNavItem

datatype decode_error =
    MissingField js_path
  | WrongType js_path expected

subsection \<open>Primitive readers\<close>

definition get_field :: "js_path \<Rightarrow> (js_string \<times> jsval) list \<Rightarrow> js_string \<Rightarrow> decode_error + jsval" where
  "get_field p kvs k = (case js_get kvs k of None \<Rightarrow> Inl (MissingField (p @ [Key k])) | Some v \<Rightarrow> Inr v)"

definition as_string :: "js_path \<Rightarrow> jsval \<Rightarrow> decode_error + js_string" where
  "as_string p v = (case v of JStr s \<Rightarrow> Inr s | _ \<Rightarrow> Inl (WrongType p ExpString))"

definition as_array :: "js_path \<Rightarrow> jsval \<Rightarrow> decode_error + jsval list" where
  "as_array p v = (case v of JArr vs \<Rightarrow> Inr vs | _ \<Rightarrow> Inl (WrongType p ExpArray))"

definition as_object :: "js_path \<Rightarrow> jsval \<Rightarrow> decode_error + (js_string \<times> jsval) list" where
  "as_object p v = (case v of JObj kvs \<Rightarrow> Inr kvs | _ \<Rightarrow> Inl (WrongType p ExpObject))"

definition get_string :: "js_path \<Rightarrow> (js_string \<times> jsval) list \<Rightarrow> js_string \<Rightarrow> decode_error + js_string" where
  "get_string p kvs k = bind_sum (get_field p kvs k) (as_string (p @ [Key k]))"

fun decode_seq ::
  "(js_path \<Rightarrow> jsval \<Rightarrow> decode_error + 'a) \<Rightarrow> js_path \<Rightarrow> nat \<Rightarrow> jsval list \<Rightarrow> decode_error + 'a list" where
  "decode_seq f p i [] = Inr []"
| "decode_seq f p i (v # vs) =
     bind_sum (f (p @ [Idx i]) v) (\<lambda>x. bind_sum (decode_seq f p (Suc i) vs) (\<lambda>xs. Inr (x # xs)))"

definition decode_array ::
  "(js_path \<Rightarrow> jsval \<Rightarrow> decode_error + 'a) \<Rightarrow> js_path \<Rightarrow> jsval \<Rightarrow> decode_error + 'a list" where
  "decode_array f p v = bind_sum (as_array p v) (decode_seq f p 0)"

subsection \<open>Readers of the configuration\<close>

definition decode_nav_link :: "js_path \<Rightarrow> jsval \<Rightarrow> decode_error + nav_link" where
  "decode_nav_link p v =
     bind_sum (as_object p v) (\<lambda>kvs.
     bind_sum (get_string p kvs ''text'') (\<lambda>t.
     bind_sum (get_string p kvs ''link'') (\<lambda>l.
     Inr \<lparr>nl_text = t, nl_link = l\<rparr>)))"

definition decode_dropdown :: "js_path \<Rightarrow> jsval \<Rightarrow> decode_error + nav_item" where
  "decode_dropdown p v =
     bind_sum (as_object p v) (\<lambda>kvs.
     bind_sum (get_string p kvs ''text'') (\<lambda>t.
     bind_sum (get_field p kvs ''items'') (\<lambda>w.
     bind_sum (decode_array decode_nav_link (p @ [Key ''items'']) w) (\<lambda>items.
     Inr (DropdownMenu t items)))))"

definition decode_nav_item :: "js_path \<Rightarrow> jsval \<Rightarrow> decode_error + nav_item" where
  "decode_nav_item p v =
     (case decode_nav_link p v of
        Inr l \<Rightarrow> Inr (SimpleLink l)
      | Inl _ \<Rightarrow>
          (case decode_dropdown p v of
             Inr d \<Rightarrow> Inr d
           | Inl _ \<Rightarrow> Inl (WrongType p ExpNavItem)))"

definition decode_social_icon :: "js_path \<Rightarrow> jsval \<Rightarrow> decode_error + social_icon" where
  "decode_social_icon p v =
     bind_sum (as_string p v) (\<lambda>s.
       case icon_of_name s of None \<Rightarrow> Inl (WrongType p ExpIcon) | Some i \<Rightarrow> Inr i)"

definition decode_social_link :: "js_path \<Rightarrow> jsval \<Rightarrow> decode_error + social_link" where
  "decode_social_link p v =
     bind_sum (as_object p v) (\<lambda>kvs.
     bind_sum (get_field p kvs ''icon'') (\<lambda>w.
     bind_sum (decode_social_icon (p @ [Key ''icon'']) w) (\<lambda>i.
     bind_sum (get_string p kvs ''link'') (\<lambda>l.
     Inr \<lparr>sl_icon = i, sl_link = l\<rparr>))))"

definition decode_outline :: "js_path \<Rightarrow> jsval \<Rightarrow> decode_error + js_string" where
  "decode_outline p v = bind_sum (as_object p v) (\<lambda>kvs. get_string p kvs ''label'')"

type_synonym theme = "nav_item list \<times> js_string \<times> social_link list"

definition decode_theme :: "js_path \<Rightarrow> jsval \<Rightarrow> decode_error + theme" where
  "decode_theme p v =
     bind_sum (as_object p v) (\<lambda>kvs.
     bind_sum (get_field p kvs ''nav'') (\<lambda>w.
     bind_sum (decode_array decode_nav_item (p @ [Key ''nav'']) w) (\<lambda>navs.
     bind_sum (get_field p kvs ''outline'') (\<lambda>w.
     bind_sum (decode_outline (p @ [Key ''outline'']) w) (\<lambda>label.
     bind_sum (get_field p kvs ''socialLinks'') (\<lambda>w.
     bind_sum (decode_array decode_social_link (p @ [Key ''socialLinks'']) w) (\<lambda>socials.
     Inr (navs, label, socials))))))))"

definition decode_site_config :: "jsval \<Rightarrow> decode_error + site_configuration" where
  "decode_site_config v =
     bind_sum (as_object [] v) (\<lambda>kvs.
     bind_sum (get_string [] kvs ''title'') (\<lambda>t.
     bind_sum (get_string [] kvs ''description'') (\<lambda>d.
     bind_sum (get_field [] kvs ''themeConfig'') (\<lambda>w.
     bind_sum (decode_theme [Key ''themeConfig''] w) (\<lambda>(navs, label, socials).
     bind_sum (get_string [] kvs ''srcDir'') (\<lambda>s.
     Inr \<lparr>title = t, description = d, nav = navs, outlineLabel = label,
          socialLinks = socials, srcDir = s\<rparr>))))))"

subsection \<open>Writers\<close>

definition enc_nav_link :: "nav_link \<Rightarrow> jsval" where
  "enc_nav_link l = JObj [(''text'', JStr (nl_text l)), (''link'', JStr (nl_link l))]"

fun enc_nav_item :: "nav_item \<Rightarrow> jsval" where
  "enc_nav_item (SimpleLink l) = enc_nav_link l"
| "enc_nav_item (DropdownMenu t items) =
     JObj [(''text'', JStr t), (''items'', JArr (map enc_nav_link items))]"

definition enc_social_link :: "social_link \<Rightarrow> jsval" where
  "enc_social_link s = JObj [(''icon'', JStr (icon_name (sl_icon s))), (''link'', JStr (sl_link s))]"

definition encode_theme :: "theme \<Rightarrow> jsval" where
  "encode_theme th = (case th of (navs, label, socials) \<Rightarrow>
     JObj [(''nav'', JArr (map enc_nav_item navs)),
           (''outline'', JObj [(''label'', JStr label)]),
           (''socialLinks'', JArr (map enc_social_link socials))])"

definition encode_site_config :: "site_configuration \<Rightarrow> jsval" where
  "encode_site_config c =
     JObj [(''title'', JStr (title c)),
           (''description'', JStr (description c)),
           (''themeConfig'', encode_theme (nav c, outlineLabel c, socialLinks c)),
           (''srcDir'', JStr (srcDir c))]"

subsection \<open>The declared type\<close>

definition nav_link_ty :: jsty where
  "nav_link_ty = TObject [(''text'', TString), (''link'', TString)]"

definition nav_item_ty :: jsty where
  "nav_item_ty = TUnion nav_link_ty (TObject [(''text'', TString), (''items'', TArray nav_link_ty)])"

definition social_link_ty :: jsty where
  "social_link_ty = TObject [(''icon'', TEnum icon_names), (''link'', TString)]"

definition theme_config_ty :: jsty where
  "theme_config_ty =
     TObject [(''nav'', TArray nav_item_ty), (''outline'', TObject [(''label'', TString)]),
              (''socialLinks'', TArray social_link_ty)]"

definition site_config_ty :: jsty where
  "site_config_ty =
     TObject [(''title'', TString), (''description'', TString), (''themeConfig'', theme_config_ty),
              (''srcDir'', TString)]"

declare get_field_def [decode_simps] as_string_def [decode_simps] as_array_def [decode_simps]
  as_object_def [decode_simps] get_string_def [decode_simps] decode_array_def [decode_simps]
  decode_nav_link_def [decode_simps] decode_dropdown_def [decode_simps]
  decode_nav_item_def [decode_simps] decode_social_icon_def [decode_simps]
  decode_social_link_def [decode_simps] decode_outline_def [decode_simps]
  decode_theme_def [decode_simps] decode_site_config_def [decode_simps]

subsection \<open>Reading what was written\<close>

lemma decode_seq_map:
  "(\<And>x q. x \<in> set xs \<Longrightarrow> f q (enc x) = Inr x) \<Longrightarrow> decode_seq f p i (map enc xs) = Inr xs"
  by (induction xs arbitrary: i) auto

lemma decode_array_map:
  "(\<And>x q. x \<in> set xs \<Longrightarrow> f q (enc x) = Inr x) \<Longrightarrow> decode_array f p (JArr (map enc xs)) = Inr xs"
  by (simp add: decode_array_def as_array_def decode_seq_map)

lemma decode_nav_link_enc [simp]: "decode_nav_link p (enc_nav_link l) = Inr l"
  by (simp add: decode_simps enc_nav_link_def)

lemma decode_nav_item_enc [simp]: "decode_nav_item p (enc_nav_item i) = Inr i"
proof (cases i)
  case (SimpleLink l)
  then show ?thesis by (simp add: decode_nav_item_def)
next
  case (DropdownMenu t items)
  have "decode_array decode_nav_link (p @ [Key ''items'']) (JArr (map enc_nav_link items)) = Inr items"
    by (rule decode_array_map) simp
  with DropdownMenu show ?thesis by (simp add: decode_simps)
qed

lemma decode_social_link_enc [simp]: "decode_social_link p (enc_social_link s) = Inr s"
  by (simp add: decode_simps enc_social_link_def)

lemma decode_theme_enc [simp]: "decode_theme p (encode_theme th) = Inr th"
proof -
  obtain navs label socials where th: "th = (navs, label, socials)" by (cases th) auto
  have n: "decode_array decode_nav_item (p @ [Key ''nav'']) (JArr (map enc_nav_item navs)) = Inr navs"
    by (rule decode_array_map) simp
  have s: "decode_array decode_social_link (p @ [Key ''socialLinks''])
             (JArr (map enc_social_link socials)) = Inr socials"
    by (rule decode_array_map) simp
  show ?thesis
    using n s by (simp add: th encode_theme_def decode_theme_def get_field_def decode_outline_def
                   as_object_def get_string_def as_string_def js_get_def)
qed

text \<open>Reading the object written for any SiteConfiguration gives that configuration back.\<close>

theorem decode_encode_site_config: "decode_site_config (encode_site_config c) = Inr c"
  by (simp add: decode_site_config_def encode_site_config_def get_string_def get_field_def
      as_object_def as_string_def js_get_def)

subsection \<open>Reading succeeds exactly on the values of the declared type\<close>

lemma get_field_eq_Inr [simp]: "get_field p kvs k = Inr w \<longleftrightarrow> js_get kvs k = Some w"
  by (simp add: get_field_def split: option.splits)

lemma ok_as_string [simp]: "(\<exists>s. as_string p v = Inr s) \<longleftrightarrow> conforms v TString"
  by (simp add: as_string_def split: jsval.splits)

lemma ok_get_string [simp]:
  "(\<exists>s. get_string p kvs k = Inr s) \<longleftrightarrow> (\<exists>w. js_get kvs k = Some w \<and> conforms w TString)"
  by (auto simp: get_string_def as_string_def split: jsval.splits)

lemma as_object_eq_Inr [simp]: "as_object p v = Inr kvs \<longleftrightarrow> v = JObj kvs"
  by (simp add: as_object_def split: jsval.splits)

lemma as_array_eq_Inr [simp]: "as_array p v = Inr vs \<longleftrightarrow> v = JArr vs"
  by (simp add: as_array_def split: jsval.splits)

lemma ok_decode_seq:
  assumes "\<And>w q. (\<exists>x. f q w = Inr x) \<longleftrightarrow> P w"
  shows "(\<exists>xs. decode_seq f p i vs = Inr xs) \<longleftrightarrow> list_all P vs"
  using assms by (induction vs arbitrary: i) auto

lemma ok_decode_array:
  assumes "\<And>w q. (\<exists>x. f q w = Inr x) \<longleftrightarrow> conforms w t"
  shows "(\<exists>xs. decode_array f p v = Inr xs) \<longleftrightarrow> conforms v (TArray t)"
proof (cases v)
  case (JArr vs)
  have "(\<exists>xs. decode_seq f p 0 vs = Inr xs) \<longleftrightarrow> list_all (\<lambda>w. conforms w t) vs"
    by (rule ok_decode_seq) (rule assms)
  with JArr show ?thesis by (simp add: decode_array_def)
qed (simp_all add: decode_array_def as_array_def)

lemma ok_decode_nav_link [simp]:
  "(\<exists>l. decode_nav_link p v = Inr l) \<longleftrightarrow> conforms v nav_link_ty"
  by (cases v) (auto simp: decode_nav_link_def nav_link_ty_def split: option.splits)

lemma ok_decode_dropdown [simp]:
  "(\<exists>d. decode_dropdown p v = Inr d) \<longleftrightarrow>
   conforms v (TObject [(''text'', TString), (''items'', TArray nav_link_ty)])"
proof -
  have items: "(\<exists>xs. decode_array decode_nav_link q w = Inr xs) \<longleftrightarrow> conforms w (TArray nav_link_ty)" for q w
    by (rule ok_decode_array) (rule ok_decode_nav_link)
  show ?thesis
    by (cases v) (auto simp: decode_dropdown_def items simp del: conforms.simps(3) split: option.splits)
qed

lemma ok_decode_nav_item [simp]:
  "(\<exists>i. decode_nav_item p v = Inr i) \<longleftrightarrow> conforms v nav_item_ty"
proof (cases "decode_nav_link p v")
  case (Inl e)
  then have "\<not> conforms v nav_link_ty"
    using ok_decode_nav_link [of p v] by auto
  have "(\<exists>i. decode_nav_item p v = Inr i) \<longleftrightarrow> (\<exists>d. decode_dropdown p v = Inr d)"
    using Inl by (auto simp: decode_nav_item_def simp del: ok_decode_dropdown split: sum.splits)
  also have "\<dots> \<longleftrightarrow> conforms v (TObject [(''text'', TString), (''items'', TArray nav_link_ty)])"
    by (rule ok_decode_dropdown)
  finally show ?thesis
    using \<open>\<not> conforms v nav_link_ty\<close> unfolding nav_item_ty_def conforms.simps(5) by blast
next
  case (Inr l)
  then have "conforms v nav_link_ty"
    using ok_decode_nav_link [of p v] by auto
  with Inr show ?thesis by (simp add: decode_nav_item_def nav_item_ty_def)
qed

lemma ok_decode_social_icon [simp]:
  "(\<exists>i. decode_social_icon p v = Inr i) \<longleftrightarrow> conforms v (TEnum icon_names)"
proof (cases v)
  case (JStr s)
  have "(\<exists>i. (case icon_of_name s of None \<Rightarrow> Inl e | Some i \<Rightarrow> Inr i) = Inr i) \<longleftrightarrow>
        (\<exists>i. icon_of_name s = Some i)" for e :: decode_error
    by (auto split: option.splits)
  with JStr show ?thesis
    by (simp add: decode_social_icon_def as_string_def icon_of_name_defined)
qed (simp_all add: decode_social_icon_def as_string_def)

lemma ok_decode_social_link [simp]:
  "(\<exists>l. decode_social_link p v = Inr l) \<longleftrightarrow> conforms v social_link_ty"
  by (cases v) (auto simp: decode_social_link_def social_link_ty_def
      simp del: conforms.simps(2) split: option.splits)

lemma ok_decode_outline [simp]:
  "(\<exists>l. decode_outline p v = Inr l) \<longleftrightarrow> conforms v (TObject [(''label'', TString)])"
  by (cases v) (auto simp: decode_outline_def split: option.splits)

lemma ok_decode_theme [simp]:
  "(\<exists>th. decode_theme p v = Inr th) \<longleftrightarrow> conforms v theme_config_ty"
proof -
  have navs: "(\<exists>xs. decode_array decode_nav_item q w = Inr xs) \<longleftrightarrow> conforms w (TArray nav_item_ty)" for q w
    by (rule ok_decode_array) (rule ok_decode_nav_item)
  have socials: "(\<exists>xs. decode_array decode_social_link q w = Inr xs) \<longleftrightarrow>
                 conforms w (TArray social_link_ty)" for q w
    by (rule ok_decode_array) (rule ok_decode_social_link)
  show ?thesis
    by (cases v) (auto simp: decode_theme_def theme_config_ty_def navs socials
        simp del: split_paired_Ex split: option.splits)
qed

text \<open>
  The reader accepts an object exactly when the object conforms to the declared type
  of the configuration; on every other value it returns an error.
\<close>

theorem decode_ok_iff_conforms:
  "(\<exists>c. decode_site_config v = Inr c) \<longleftrightarrow> conforms v site_config_ty"
proof -
  have theme: "(\<exists>navs label socials. decode_theme q w = Inr (navs, label, socials)) \<longleftrightarrow>
               conforms w theme_config_ty" for q w
    using ok_decode_theme [of q w] by auto
  show ?thesis
    by (cases v) (auto simp: decode_site_config_def site_config_ty_def theme split: option.splits)
qed

subsection \<open>The declared type does not carry the invariants\<close>

text \<open>
  The specification's invariants (links non-empty, dropdowns non-empty) are not part of
  the declared type: an object with an empty link conforms and is read without error.
\<close>

lemma conforms_not_wf:
  "\<exists>v c. conforms v site_config_ty \<and> decode_site_config v = Inr c \<and> \<not> wf_site_config c"
proof -
  define c where "c = \<lparr>title = [], description = [], nav = [SimpleLink \<lparr>nl_text = [], nl_link = []\<rparr>],
                       outlineLabel = [], socialLinks = [], srcDir = []\<rparr>"
  have dec: "decode_site_config (encode_site_config c) = Inr c"
    by (rule decode_encode_site_config)
  then have "conforms (encode_site_config c) site_config_ty"
    using decode_ok_iff_conforms by blast
  moreover have "\<not> wf_site_config c"
    by (simp add: c_def wf_site_config_def wf_nav_link_def link_ok_def is_root_relative_def
        is_absolute_url_def)
  ultimately show ?thesis using dec by blast
qed

end
