(* ===== verification/BlogConfig.thy ===== *)
theory BlogConfig
  imports ConfigCodec
begin

text \<open>
  The repository's one source file, \<open>src/.vitepress/config.mts\<close>, transliterated. The
  default export is \<open>defineConfig({...})\<close>: the object literal, passed through VitePress's
  \<open>defineConfig\<close>, which returns its argument unchanged and exists only to give the
  literal its declared type. Each part of the literal is a definition of its own, named
  after the property it is the value of: \<open>blog_nav\<close> (lines 9--20), with the dropdown
  \<open>blog_dropdown\<close> (12--19), \<open>blog_outline\<close> (34--36), \<open>blog_social_links\<close>
  (38--41), \<open>blog_theme_config\<close> (7--42) and the whole \<open>blog_config\<close> (4--45). The
  commented-out \<open>sidebar\<close> and \<open>siteTitle\<close> properties (lines 22--32) are not part
  of the value. The outline label has one non-ASCII code unit, U+00E1 (a with an
  acute accent), written \<open>CHR 0xE1\<close>. \<open>blog_site\<close> is the same configuration as the typed
  SiteConfiguration of the specification.
\<close>

definition defineConfig :: "jsval \<Rightarrow> jsval" where
  "defineConfig config = config"

definition blog_dropdown :: jsval where
  "blog_dropdown =
     JObj [(''text'', JStr ''Dropdown Menu''),
           (''items'', JArr
              [JObj [(''text'', JStr ''Item A''), (''link'', JStr ''/item-1'')],
               JObj [(''text'', JStr ''Item B''), (''link'', JStr ''/item-2'')],
               JObj [(''text'', JStr ''Item C''), (''link'', JStr ''/item-3'')]])]"

definition blog_nav :: jsval where
  "blog_nav =
     JArr [JObj [(''text'', JStr ''Home''), (''link'', JStr ''/'')],
           JObj [(''text'', JStr ''Examples''), (''link'', JStr ''/markdown-examples'')],
           blog_dropdown]"

definition blog_outline_label :: js_string where
  "blog_outline_label = ''Nessa P'' @ CHR 0xE1 # ''gina''"

definition blog_outline :: jsval where
  "blog_outline = JObj [(''label'', JStr blog_outline_label)]"

definition blog_social_links :: jsval where
  "blog_social_links =
     JArr [JObj [(''icon'', JStr ''github''), (''link'', JStr ''https://github.com/ibrabeicker'')],
           JObj [(''icon'', JStr ''youtube''), (''link'', JStr ''https://youtube.com/ibrabeicker'')]]"

definition blog_theme_config :: jsval where
  "blog_theme_config =
     JObj [(''nav'', blog_nav), (''outline'', blog_outline), (''socialLinks'', blog_social_links)]"

definition blog_config :: jsval where
  "blog_config =
     defineConfig (JObj
       [(''title'', JStr ''My Awesome Blog''),
        (''description'', JStr ''Blog by Ibrahim''),
        (''themeConfig'', blog_theme_config),
        (''srcDir'', JStr ''src'')])"

subsection \<open>The same configuration, typed\<close>

definition blog_site :: site_configuration where
  "blog_site =
     \<lparr>title = ''My Awesome Blog'',
      description = ''Blog by Ibrahim'',
      nav = [SimpleLink \<lparr>nl_text = ''Home'', nl_link = ''/''\<rparr>,
             SimpleLink \<lparr>nl_text = ''Examples'', nl_link = ''/markdown-examples''\<rparr>,
             DropdownMenu ''Dropdown Menu''
               [\<lparr>nl_text = ''Item A'', nl_link = ''/item-1''\<rparr>,
                \<lparr>nl_text = ''Item B'', nl_link = ''/item-2''\<rparr>,
                \<lparr>nl_text = ''Item C'', nl_link = ''/item-3''\<rparr>]],
      outlineLabel = blog_outline_label,
      socialLinks = [\<lparr>sl_icon = Github, sl_link = ''https://github.com/ibrabeicker''\<rparr>,
                     \<lparr>sl_icon = Youtube, sl_link = ''https://youtube.com/ibrabeicker''\<rparr>],
      srcDir = ''src''\<rparr>"

lemmas blog_defs = blog_config_def defineConfig_def blog_theme_config_def blog_nav_def
  blog_dropdown_def blog_outline_def blog_social_links_def

end
