(* ===== verification/DecodeErrors.thy ===== *)
theory DecodeErrors
  imports ConfigCodec
begin

text \<open>
  The errors of the configuration reader are accurate. \<open>error_accurate v e\<close> says
  what an error claims about the object \<open>v\<close>: \<open>MissingField p\<close> that the path \<open>p\<close>
  ends in a property name, that the object holding it is there, and that the property is
  not; \<open>WrongType p x\<close> that there is a value at \<open>p\<close> and it does not have the expected
  kind \<open>x\<close>. Each reader is shown to report only accurate errors about the values it is
  given at their paths (\<open>reader_ok\<close>), and the readers compose, so that
  \<open>decode_site_config_error_accurate\<close> holds for every input.
\<close>

primrec matches :: "expected \<Rightarrow> jsval \<Rightarrow> bool" where
  "matches ExpString w = conforms w TString"
| "matches ExpArray w = (case w of JArr _ \<Rightarrow> True | _ \<Rightarrow> False)"
| "matches ExpObject w = (case w of JObj _ \<Rightarrow> True | _ \<Rightarrow> False)"
| "matches ExpIcon w = conforms w (TEnum icon_names)"
| "matches ExpNavItem w = conforms w nav_item_ty"

definition error_accurate :: "jsval \<Rightarrow> decode_error \<Rightarrow> bool" where
  "error_accurate v e =
     (case e of
        MissingField p \<Rightarrow>
          p \<noteq> [] \<and> js_path v p = None \<and>
          (case last p of
             Key _ \<Rightarrow> (case js_path v (butlast p) of Some (JObj _) \<Rightarrow> True | _ \<Rightarrow> False)
           | Idx _ \<Rightarrow> False)
      | WrongType p x \<Rightarrow> (case js_path v p of None \<Rightarrow> False | Some w \<Rightarrow> \<not> matches x w))"

definition reader_ok :: "jsval \<Rightarrow> (js_path \<Rightarrow> jsval \<Rightarrow> decode_error + 'a) \<Rightarrow> bool" where
  "reader_ok v f \<longleftrightarrow> (\<forall>p w e. js_path v p = Some w \<longrightarrow> f p w = Inl e \<longrightarrow> error_accurate v e)"

lemma reader_okI:
  "(\<And>p w e. js_path v p = Some w \<Longrightarrow> f p w = Inl e \<Longrightarrow> error_accurate v e) \<Longrightarrow> reader_ok v f"
  by (simp add: reader_ok_def)

lemma reader_okD:
  "reader_ok v f \<Longrightarrow> js_path v p = Some w \<Longrightarrow> f p w = Inl e \<Longrightarrow> error_accurate v e"
  by (simp add: reader_ok_def)

lemma bind_sum_InlE:
  assumes "bind_sum m f = Inl e"
  obtains "m = Inl e" | x where "m = Inr x" and "f x = Inl e"
  using assms by (cases m) auto

subsection \<open>Primitive readers\<close>

lemma wrong_type_accurate:
  "js_path v p = Some w \<Longrightarrow> \<not> matches x w \<Longrightarrow> error_accurate v (WrongType p x)"
  by (simp add: error_accurate_def)

lemma as_string_accurate:
  "js_path v p = Some w \<Longrightarrow> as_string p w = Inl e \<Longrightarrow> error_accurate v e"
  by (auto simp: as_string_def error_accurate_def split: jsval.splits)

lemma as_array_accurate:
  "js_path v p = Some w \<Longrightarrow> as_array p w = Inl e \<Longrightarrow> error_accurate v e"
  by (auto simp: as_array_def error_accurate_def split: jsval.splits)

lemma as_object_accurate:
  "js_path v p = Some w \<Longrightarrow> as_object p w = Inl e \<Longrightarrow> error_accurate v e"
  by (auto simp: as_object_def error_accurate_def split: jsval.splits)

lemma get_field_accurate:
  "js_path v p = Some (JObj kvs) \<Longrightarrow> get_field p kvs k = Inl e \<Longrightarrow> error_accurate v e"
  by (auto simp: get_field_def error_accurate_def js_path_snoc_Key split: option.splits)

lemma get_field_at:
  "js_path v p = Some (JObj kvs) \<Longrightarrow> get_field p kvs k = Inr w \<Longrightarrow> js_path v (p @ [Key k]) = Some w"
  by (simp add: js_path_snoc_Key)

lemma get_string_accurate:
  assumes "js_path v p = Some (JObj kvs)" and "get_string p kvs k = Inl e"
  shows "error_accurate v e"
  using assms(2) unfolding get_string_def
proof (rule bind_sum_InlE)
  assume "get_field p kvs k = Inl e"
  with assms(1) show ?thesis by (rule get_field_accurate)
next
  fix w
  assume "get_field p kvs k = Inr w" and "as_string (p @ [Key k]) w = Inl e"
  with assms(1) show ?thesis by (blast intro: as_string_accurate get_field_at)
qed

lemmas field_accurate = get_field_accurate get_string_accurate as_object_accurate

subsection \<open>Arrays\<close>

lemma drop_eq_ConsD:
  "drop i vs = w # ws \<Longrightarrow> i < length vs \<and> vs ! i = w \<and> drop (Suc i) vs = ws"
  by (metis Cons_nth_drop_Suc drop_all list.distinct(1) list.inject not_le)

lemma decode_seq_accurate:
  assumes f: "reader_ok v f" and arr: "js_path v p = Some (JArr vs)"
  shows "drop i vs = ws \<Longrightarrow> decode_seq f p i ws = Inl e \<Longrightarrow> error_accurate v e"
proof (induction ws arbitrary: i)
  case Nil
  then show ?case by simp
next
  case (Cons w ws)
  from Cons.prems(1) have i: "i < length vs" "vs ! i = w" "drop (Suc i) vs = ws"
    by (auto dest: drop_eq_ConsD)
  with arr have at: "js_path v (p @ [Idx i]) = Some w" by (simp add: js_path_snoc_Idx)
  from Cons.prems(2) show ?case
    by (auto elim!: bind_sum_InlE intro: reader_okD [OF f at] Cons.IH [OF i(3)])
qed

lemma reader_ok_decode_array: "reader_ok v f \<Longrightarrow> reader_ok v (decode_array f)"
  by (rule reader_okI)
     (auto simp: decode_array_def elim!: bind_sum_InlE intro: as_array_accurate decode_seq_accurate [where i = 0, simplified])

lemma field_reader_accurate:
  "reader_ok v f \<Longrightarrow> js_path v p = Some (JObj kvs) \<Longrightarrow> get_field p kvs k = Inr w \<Longrightarrow>
   f (p @ [Key k]) w = Inl e \<Longrightarrow> error_accurate v e"
  by (blast intro: reader_okD get_field_at)

subsection \<open>The configuration readers\<close>

lemma reader_ok_nav_link: "reader_ok v decode_nav_link"
  by (rule reader_okI) (auto simp: decode_nav_link_def elim!: bind_sum_InlE intro: field_accurate)

lemma reader_ok_nav_item: "reader_ok v decode_nav_item"
proof (rule reader_okI)
  fix p w e
  assume at: "js_path v p = Some w" and dec: "decode_nav_item p w = Inl e"
  from dec have "\<not> conforms w nav_item_ty"
    using ok_decode_nav_item [of p w] by auto
  moreover from dec have "e = WrongType p ExpNavItem"
    by (auto simp: decode_nav_item_def split: sum.splits)
  ultimately show "error_accurate v e"
    using at by (simp add: wrong_type_accurate)
qed

lemma reader_ok_social_icon: "reader_ok v decode_social_icon"
proof (rule reader_okI)
  fix p w e
  assume at: "js_path v p = Some w" and dec: "decode_social_icon p w = Inl e"
  show "error_accurate v e"
  proof (cases w)
    case (JStr s)
    with dec have "icon_of_name s = None" and "e = WrongType p ExpIcon"
      by (auto simp: decode_social_icon_def as_string_def split: option.splits)
    then show ?thesis
      using at JStr icon_of_name_defined [of s] by (auto simp: error_accurate_def)
  qed (use at dec in \<open>auto simp: decode_social_icon_def as_string_def error_accurate_def\<close>)
qed

lemma reader_ok_social_link: "reader_ok v decode_social_link"
  by (rule reader_okI)
     (auto simp: decode_social_link_def elim!: bind_sum_InlE
        intro: field_accurate field_reader_accurate [OF reader_ok_social_icon])

lemma reader_ok_outline: "reader_ok v decode_outline"
  by (rule reader_okI) (auto simp: decode_outline_def elim!: bind_sum_InlE intro: field_accurate)

lemma reader_ok_theme: "reader_ok v decode_theme"
proof -
  have navs: "reader_ok v (decode_array decode_nav_item)"
    by (rule reader_ok_decode_array) (rule reader_ok_nav_item)
  have socials: "reader_ok v (decode_array decode_social_link)"
    by (rule reader_ok_decode_array) (rule reader_ok_social_link)
  show ?thesis
    by (rule reader_okI)
       (auto simp: decode_theme_def elim!: bind_sum_InlE
          intro: field_accurate field_reader_accurate [OF navs] field_reader_accurate [OF socials]
                 field_reader_accurate [OF reader_ok_outline])
qed

text \<open>Every error the reader reports on any input is true of that input.\<close>

theorem decode_site_config_error_accurate:
  "decode_site_config v = Inl e \<Longrightarrow> error_accurate v e"
  by (auto simp: decode_site_config_def split_def elim!: bind_sum_InlE
      intro: field_accurate [where p = "[]", simplified]
             field_reader_accurate [OF reader_ok_theme, where p = "[]", simplified])

end
