(* ===== verification/Spec2Isabelle.thy ===== *)
theory Spec2Isabelle
  imports BlogConfig DecodeErrors
begin

text \<open>
  \<^bold>\<open>The program.\<close> The repository is a VitePress blog whose only source is
  \<open>src/.vitepress/config.mts\<close>: one object literal (site title, description, a theme
  configuration with a navigation bar, an outline label and social links, and the content
  directory), exported through VitePress's \<open>defineConfig\<close>. It has no algorithm and no
  state; its correctness is that the value it exports has the shape VitePress reads, holds
  the values the specification lists, and satisfies the specification's invariants. The
  parts interact in one direction: the file builds the value, \<open>defineConfig\<close> returns it
  unchanged, and VitePress reads it by property names.

  \<^bold>\<open>Theories.\<close>
  \<^item> \<open>Prelude\<close>: the string type of the model, the error-sum sequencing
    \<open>bind_sum\<close>, the \<open>decode_simps\<close> collection, association-list lemmas.
  \<^item> \<open>JsValue\<close>: JavaScript values (\<open>jsval\<close>), property reads with JavaScript's
    last-definition-wins rule for duplicate keys (\<open>js_get\<close>), reads along a path
    (\<open>js_path\<close>, \<open>None\<close> for \<open>undefined\<close>), absence of duplicate keys
    (\<open>keys_distinct\<close>), and the fragment of TypeScript's structural types the
    configuration's type uses with assignability (\<open>jsty\<close>, \<open>conforms\<close>).
  \<^item> \<open>SiteConfig\<close>: the SiteConfiguration of the specification (section 3) as records
    and datatypes (\<open>nav_link\<close>, \<open>nav_item\<close>, \<open>social_icon\<close>, \<open>social_link\<close>,
    \<open>site_configuration\<close>), the icon identifiers (an \<open>enum\<close> instance), and the invariants
    (\<open>wf_site_config\<close>: every link a root-relative path or an absolute URL, no empty
    dropdown), and the check that a social link's host is its icon's platform
    (\<open>on_platform\<close>, \<open>platform_host\<close>, \<open>url_host\<close>).
  \<^item> \<open>ConfigCodec\<close>: how VitePress's reading of the object is modelled
    (\<open>decode_site_config\<close> and one reader per nested object, failing with
    \<open>MissingField\<close> or \<open>WrongType\<close> at a path), the writer
    \<open>encode_site_config\<close>, and the declared type \<open>site_config_ty\<close>. Proved for every
    input: reading what was written gives it back (\<open>decode_encode_site_config\<close>),
    reading succeeds exactly on the values that conform to the declared type
    (\<open>decode_ok_iff_conforms\<close>), and the declared type does not carry the
    specification's invariants (\<open>conforms_not_wf\<close>).
  \<^item> \<open>DecodeErrors\<close>: every error the reader reports is true of the input
    (\<open>decode_site_config_error_accurate\<close>): a missing field is absent from a parent
    object that is present, a wrong type is a value of another kind.
  \<^item> \<open>BlogConfig\<close>: the source literal, one definition per nested property value, each
    mapped to its lines (\<open>blog_config\<close> lines 4--45, \<open>blog_theme_config\<close> 7--42,
    \<open>blog_nav\<close> 9--20, \<open>blog_dropdown\<close> 12--19, \<open>blog_outline\<close> 34--36,
    \<open>blog_social_links\<close> 38--41), \<open>defineConfig\<close> as the identity, and
    \<open>blog_site\<close>, the same configuration as a typed SiteConfiguration.
  \<^item> This theory: the properties of the program, C1--C7. Each checks the literal against
    a rule that is not read off the literal: the literal reads as \<open>blog_site\<close> (C1),
    conforms to the declared type (C2), satisfies the specification's invariants (C3),
    offers distinct root-relative navigation targets (C4), has https social links with
    distinct icons (C5), writes no key twice (C6), and shows each social link under the
    icon of the platform it leads to (C7).

  \<^bold>\<open>Modelling choices.\<close> A JavaScript string is the list of its UTF-16 code units; all
  code units in the file are below 256 (the one non-ASCII character is U+00E1), so a HOL
  \<open>char list\<close> holds them one to one and \<open>length\<close> agrees with \<open>.length\<close>. The file
  has no numbers, loops or recursion, so there are no machine integers, no fuel and no
  bounds to choose; every function of the model is total by structural recursion.
  Errors are values of \<open>decode_error + 'a\<close>.

  \<^bold>\<open>Not modelled.\<close> The VitePress build (rendering, markdown, routing, assets) is an
  external framework. VitePress's own reading code is not in the repository: the reader
  here follows the field list and nesting of the specification (sections 3 and 6) and
  requires every field the specification lists, whereas VitePress's types make them all
  optional and VitePress also reads properties the specification does not name
  (\<open>siteTitle\<close>, \<open>sidebar\<close>, \<open>outline.level\<close>, \<open>activeMatch\<close>, \<open>target\<close>,
  \<open>rel\<close>), which the reader ignores. Nested groups inside dropdowns and the
  \<open>{svg}\<close> form of an icon are left out; TypeScript's excess-property check on fresh
  literals is not modelled (\<open>conforms\<close> allows extra properties). The commented-out
  \<open>sidebar\<close> and \<open>siteTitle\<close> of lines 22--32 are comments and not part of the value.
  The specification's idempotence property (building the value twice gives equal values)
  holds of every HOL definition and is not stated; its "exact literal values" property is
  not stated either, since it would only compare the literal with a copy of itself.

  \<^bold>\<open>Plan.\<close> Next: VitePress's own, wider configuration type (optional properties,
  \<open>NavItem\<close> with optional \<open>text\<close> and nested groups) as the target of the reading,
  with the specification's SiteConfiguration as a refinement of it.
\<close>

text \<open>C1: the configuration object of \<open>config.mts\<close> reads as the SiteConfiguration \<open>blog_site\<close>.\<close>

theorem decode_blog_config: "decode_site_config blog_config = Inr blog_site"
  by (simp add: blog_defs blog_site_def decode_simps icon_of_name_def all_icons_def)

text \<open>C2: the configuration object conforms to the declared configuration type.\<close>

theorem blog_config_conforms: "conforms blog_config site_config_ty"
  by (simp add: blog_defs site_config_ty_def theme_config_ty_def nav_item_ty_def nav_link_ty_def
      social_link_ty_def icon_names_def all_icons_def js_get_def)

text \<open>C3: the configuration satisfies the invariants of the specification.\<close>

theorem blog_site_wf: "wf_site_config blog_site"
  by (simp add: blog_site_def blog_outline_label_def wf_site_config_def wf_nav_link_def
      wf_social_link_def link_ok_def is_root_relative_def is_absolute_url_def is_scheme_char_def)

text \<open>
  C4: the navigation bar offers the link targets \<open>/\<close>, \<open>/markdown-examples\<close>,
  \<open>/item-1\<close>, \<open>/item-2\<close>, \<open>/item-3\<close>, in this order: no two entries lead to the
  same page, and every target is a root-relative path.
\<close>

theorem blog_nav_targets:
  "nav_targets (nav blog_site) = [''/'', ''/markdown-examples'', ''/item-1'', ''/item-2'', ''/item-3''] \<and>
   distinct (nav_targets (nav blog_site)) \<and>
   list_all is_root_relative (nav_targets (nav blog_site))"
  by (simp add: blog_site_def is_root_relative_def)

text \<open>
  C5: the social links are GitHub then YouTube, each icon appears once, and every link is
  an \<open>https://\<close> URL.
\<close>

theorem blog_social_links_https:
  "map sl_icon (socialLinks blog_site) = [Github, Youtube] \<and>
   distinct (map sl_icon (socialLinks blog_site)) \<and>
   list_all (\<lambda>s. is_absolute_url (sl_link s) \<and> prefix ''https://'' (sl_link s)) (socialLinks blog_site)"
  by (simp add: blog_site_def is_absolute_url_def is_scheme_char_def)

text \<open>
  C6: no object of the exported literal writes a key twice, so no property of the file is
  silently replaced by a later duplicate (JavaScript keeps the last one).
\<close>

theorem blog_config_keys_distinct: "keys_distinct blog_config"
  by (simp add: blog_defs)

text \<open>
  C7: each social link leads to the platform its icon names: the GitHub link's host is
  \<open>github.com\<close> and the YouTube link's host is \<open>youtube.com\<close>.
\<close>

theorem blog_social_links_on_platform: "list_all on_platform (socialLinks blog_site)"
  by (simp add: blog_site_def on_platform_def url_host_def is_scheme_char_def)

end
